theory Spec2Isabelle
  imports Complex_Main "HOL-Library.Word"
begin

section \<open>Values of the JavaScript runtime\<close>

text \<open>
  A value produced by \<^verbatim>\<open>JSON.parse\<close>. \<^verbatim>\<open>undefined\<close> is not a JSON value: a
  property read yields a \<open>json option\<close>, with \<open>None\<close> for \<^verbatim>\<open>undefined\<close>. The same
  option type models a slot of type \<^verbatim>\<open>T | null\<close>, with \<open>None\<close> for \<^verbatim>\<open>null\<close>.
\<close>

datatype json =
    JNull
  | JBool bool
  | JNum rat
  | JStr string
  | JArr "json list"
  | JObj "(string \<times> json) list"

datatype exn =
    TypeError
  | SyntaxError
  | InvalidStateError
  | NetworkError
  | Error "json"  \<comment> \<open>\<^verbatim>\<open>new Error(v)\<close>: the message is the string conversion of \<open>v\<close>\<close>

text \<open>
  \<^verbatim>\<open>v.p\<close> for the property names the sources read (\<^verbatim>\<open>type\<close>, \<^verbatim>\<open>data\<close>,
  \<^verbatim>\<open>message\<close>, \<^verbatim>\<open>error\<close>, \<^verbatim>\<open>status\<close>, \<^verbatim>\<open>text\<close>): reading a property of
  \<^verbatim>\<open>null\<close> or \<^verbatim>\<open>undefined\<close> throws a TypeError, an object yields its own property
  or \<^verbatim>\<open>undefined\<close>, and numbers, booleans, strings and arrays have none of these
  properties.
\<close>

fun get_prop :: "json option \<Rightarrow> string \<Rightarrow> exn + json option" where
  "get_prop None p = Inl TypeError"
| "get_prop (Some JNull) p = Inl TypeError"
| "get_prop (Some (JObj kvs)) p = Inr (map_of kvs p)"
| "get_prop (Some v) p = Inr None"

text \<open>JavaScript truthiness, as used by \<^verbatim>\<open>a || b\<close>.\<close>

fun truthy :: "json option \<Rightarrow> bool" where
  "truthy None = False"
| "truthy (Some JNull) = False"
| "truthy (Some (JBool b)) = b"
| "truthy (Some (JNum n)) = (n \<noteq> 0)"
| "truthy (Some (JStr s)) = (s \<noteq> [])"
| "truthy (Some (JArr xs)) = True"
| "truthy (Some (JObj kvs)) = True"

text \<open>\<^verbatim>\<open>a || b\<close> where \<open>b\<close> is a string literal.\<close>

definition or_else :: "json option \<Rightarrow> string \<Rightarrow> json" where
  "or_else a b = (if truthy a then the a else JStr b)"

section \<open>useWebSocket: the streaming connection manager\<close>

datatype readyState = CONNECTING | OPEN | CLOSING | CLOSED

text \<open>
  A \<^verbatim>\<open>WebSocket\<close> object of the environment. Its handlers are installed by one
  call of \<^verbatim>\<open>connect\<close>; \<open>creator\<close> is the value of the React state \<^verbatim>\<open>socket\<close> that this
  call's closure captured (the timer callback of \<^verbatim>\<open>onclose\<close> calls the same closure
  again).
\<close>

record websocket =
  readyState :: readyState
  creator :: "nat option"

datatype timer_state = Pending | Fired | Cleared

text \<open>A timer made by \<^verbatim>\<open>setTimeout\<close>; its identifier is its index in \<open>timers\<close>.\<close>

record timer =
  delay :: nat
  callback_socket :: "nat option"
  tstate :: timer_state

datatype msg_type = audio_chunk | config | stop

record WebSocketMessage =
  mtype :: msg_type
  mdata :: "string option"

text \<open>
  The hook's state: the four \<^verbatim>\<open>useState\<close> slots, the two refs, and the part of the
  environment the hook acts on: every \<^verbatim>\<open>WebSocket\<close> constructed so far (a socket is
  named by its index), every timer set so far, and the frames handed to
  \<^verbatim>\<open>socket.send\<close> (the frame is \<^verbatim>\<open>JSON.stringify(message)\<close>, recorded as the message).
  \<open>url_valid\<close> says whether \<^verbatim>\<open>new WebSocket(url)\<close> accepts the hook's url; the
  constructor throws otherwise.
\<close>

record ws_hook =
  socket :: "nat option"
  isConnected :: bool
  lastMessage :: "string option"
  error :: "json option"
  reconnectTimeoutRef :: "nat option"
  reconnectAttemptsRef :: nat
  sockets :: "websocket list"
  timers :: "timer list"
  sent :: "(nat \<times> WebSocketMessage) list"
  url_valid :: bool

definition maxReconnectAttempts :: nat where
  "maxReconnectAttempts = 5"

definition init_hook :: "bool \<Rightarrow> ws_hook" where
  "init_hook valid = \<lparr> socket = None, isConnected = False, lastMessage = None,
     error = None, reconnectTimeoutRef = None, reconnectAttemptsRef = 0,
     sockets = [], timers = [], sent = [], url_valid = valid \<rparr>"

text \<open>\<^verbatim>\<open>socket?.readyState === WebSocket.OPEN\<close>, for the socket \<open>c\<close> a closure holds.\<close>

definition is_open :: "nat option \<Rightarrow> ws_hook \<Rightarrow> bool" where
  "is_open c s = (case c of None \<Rightarrow> False
     | Some i \<Rightarrow> i < length (sockets s) \<and> readyState (sockets s ! i) = OPEN)"

text \<open>
  \<^verbatim>\<open>connect\<close>, run by a closure whose captured \<^verbatim>\<open>socket\<close> is \<open>c\<close> (for a call from the
  latest render, \<open>c = socket s\<close>).
\<close>

definition connect :: "nat option \<Rightarrow> ws_hook \<Rightarrow> ws_hook" where
  "connect c s =
     (if is_open c s then s
      else if url_valid s then
        s\<lparr> sockets := sockets s @ [\<lparr> readyState = CONNECTING, creator = c \<rparr>],
           socket := Some (length (sockets s)) \<rparr>
      else s\<lparr> error := Some (JStr ''Failed to create WebSocket connection'') \<rparr>)"

definition onopen :: "ws_hook \<Rightarrow> ws_hook" where
  "onopen s = s\<lparr> isConnected := True, error := None, reconnectAttemptsRef := 0 \<rparr>"

text \<open>
  \<^verbatim>\<open>ws.onmessage\<close>. \<open>parse\<close> is the runtime's \<^verbatim>\<open>JSON.parse\<close> (\<open>None\<close> when it throws).
  The slot is written before \<^verbatim>\<open>message.type\<close> is read, so a TypeError of that read
  is caught after the write.
\<close>

definition onmessage :: "(string \<Rightarrow> json option) \<Rightarrow> string \<Rightarrow> ws_hook \<Rightarrow> ws_hook" where
  "onmessage parse d s =
     (case parse d of
        None \<Rightarrow> s\<lparr> error := Some (JStr ''Failed to parse server message'') \<rparr>
      | Some message \<Rightarrow>
          (let s1 = s\<lparr> lastMessage := Some d \<rparr> in
           case get_prop (Some message) ''type'' of
             Inl e \<Rightarrow> s1\<lparr> error := Some (JStr ''Failed to parse server message'') \<rparr>
           | Inr t \<Rightarrow>
               if t = Some (JStr ''error'') then
                 (case get_prop (Some message) ''data'' of
                    Inl e \<Rightarrow> s1\<lparr> error := Some (JStr ''Failed to parse server message'') \<rparr>
                  | Inr dt \<Rightarrow>
                      (case get_prop dt ''message'' of
                         Inl e \<Rightarrow> s1\<lparr> error := Some (JStr ''Failed to parse server message'') \<rparr>
                       | Inr m \<Rightarrow> s1\<lparr> error := Some (or_else m ''WebSocket error'') \<rparr>))
               else s1))"

text \<open>The backoff delay in milliseconds for attempt count \<open>n\<close>.\<close>

definition backoff :: "nat \<Rightarrow> nat" where
  "backoff n = min (1000 * 2 ^ n) 30000"

text \<open>
  \<^verbatim>\<open>ws.onclose\<close> of a socket whose handlers were installed by the closure with
  captured socket \<open>c\<close>; \<open>code\<close> is \<^verbatim>\<open>event.code\<close>.
\<close>

definition onclose :: "nat option \<Rightarrow> nat \<Rightarrow> ws_hook \<Rightarrow> ws_hook" where
  "onclose c code s =
     (let s1 = s\<lparr> isConnected := False, socket := None \<rparr> in
      if code \<noteq> 1000 \<and> reconnectAttemptsRef s1 < maxReconnectAttempts then
        s1\<lparr> timers := timers s1 @
               [\<lparr> delay = backoff (reconnectAttemptsRef s1), callback_socket = c,
                  tstate = Pending \<rparr>],
            reconnectTimeoutRef := Some (length (timers s1)) \<rparr>
      else s1)"

definition onerror :: "ws_hook \<Rightarrow> ws_hook" where
  "onerror s = s\<lparr> error := Some (JStr ''WebSocket connection error'') \<rparr>"

text \<open>The callback given to \<^verbatim>\<open>setTimeout\<close> in \<^verbatim>\<open>onclose\<close>.\<close>

definition reconnect_callback :: "nat option \<Rightarrow> ws_hook \<Rightarrow> ws_hook" where
  "reconnect_callback c s = connect c (s\<lparr> reconnectAttemptsRef := reconnectAttemptsRef s + 1 \<rparr>)"

text \<open>\<^verbatim>\<open>clearTimeout(t)\<close>: cancels a pending timer, and does nothing otherwise.\<close>

definition clearTimeout :: "nat \<Rightarrow> ws_hook \<Rightarrow> ws_hook" where
  "clearTimeout t s =
     (if t < length (timers s) \<and> tstate (timers s ! t) = Pending
      then s\<lparr> timers := (timers s)[t := (timers s ! t)\<lparr> tstate := Cleared \<rparr>] \<rparr>
      else s)"

text \<open>
  \<^verbatim>\<open>socket.close(1000, 'Manual disconnect')\<close>: a connecting or open socket starts
  closing; a closing or closed one is left as it is.
\<close>

definition socket_close :: "nat \<Rightarrow> ws_hook \<Rightarrow> ws_hook" where
  "socket_close i s =
     (if i < length (sockets s) \<and> readyState (sockets s ! i) \<in> {CONNECTING, OPEN}
      then s\<lparr> sockets := (sockets s)[i := (sockets s ! i)\<lparr> readyState := CLOSING \<rparr>] \<rparr>
      else s)"

text \<open>
  \<^verbatim>\<open>disconnect\<close>, run by a closure whose captured \<^verbatim>\<open>socket\<close> is \<open>c\<close>. A timer
  identifier of a browser is a positive number, so the test of the ref is the test
  for \<open>Some\<close>.
\<close>

definition disconnect :: "nat option \<Rightarrow> ws_hook \<Rightarrow> ws_hook" where
  "disconnect c s =
     (let s1 = (case reconnectTimeoutRef s of
                  Some t \<Rightarrow> (clearTimeout t s)\<lparr> reconnectTimeoutRef := None \<rparr>
                | None \<Rightarrow> s);
          s2 = (case c of Some i \<Rightarrow> socket_close i s1 | None \<Rightarrow> s1)
      in s2\<lparr> socket := None, isConnected := False, reconnectAttemptsRef := 0 \<rparr>)"

text \<open>
  \<^verbatim>\<open>socket.send(frame)\<close>: throws an InvalidStateError on a connecting socket, queues
  the frame on an open one, and discards it on a closing or closed one.
\<close>

definition socket_send :: "nat \<Rightarrow> WebSocketMessage \<Rightarrow> ws_hook \<Rightarrow> exn + ws_hook" where
  "socket_send i m s =
     (if i < length (sockets s) then
        (case readyState (sockets s ! i) of
           CONNECTING \<Rightarrow> Inl InvalidStateError
         | OPEN \<Rightarrow> Inr (s\<lparr> sent := sent s @ [(i, m)] \<rparr>)
         | CLOSING \<Rightarrow> Inr s
         | CLOSED \<Rightarrow> Inr s)
      else Inl TypeError)"

text \<open>\<^verbatim>\<open>try { body } catch (err) { handler }\<close>.\<close>

definition try_catch :: "exn + 'a \<Rightarrow> (exn \<Rightarrow> exn + 'a) \<Rightarrow> exn + 'a" where
  "try_catch body handler = (case body of Inl e \<Rightarrow> handler e | Inr v \<Rightarrow> Inr v)"

text \<open>
  \<^verbatim>\<open>sendMessage\<close>, run by a closure whose captured \<^verbatim>\<open>socket\<close> is \<open>c\<close>. The result is
  \<open>Inl\<close> when an exception reaches the caller.
\<close>

definition sendMessage :: "nat option \<Rightarrow> WebSocketMessage \<Rightarrow> ws_hook \<Rightarrow> exn + ws_hook" where
  "sendMessage c m s =
     (if is_open c s then
        try_catch (socket_send (the c) m s)
          (\<lambda>err. Inr (s\<lparr> error := Some (JStr ''Failed to send message'') \<rparr>))
      else Inr (s\<lparr> error := Some (JStr ''WebSocket not connected'') \<rparr>))"


definition sendStop :: "nat option \<Rightarrow> ws_hook \<Rightarrow> exn + ws_hook" where
  "sendStop c s = sendMessage c \<lparr> mtype = stop, mdata = None \<rparr> s"

subsection \<open>Events\<close>

text \<open>
  What can happen to the hook: a call of one of its operations from the latest render
  (whose closures hold the current \<^verbatim>\<open>socket\<close>), an event of a socket, or a timer
  firing. The environment delivers \<^verbatim>\<open>open\<close> to a connecting socket, \<^verbatim>\<open>message\<close> to an
  open one, \<^verbatim>\<open>close\<close> and \<^verbatim>\<open>error\<close> to one that is not yet closed, and fires a timer
  only while it is pending; any other event is not delivered. \<open>dispatch\<close> runs the
  handler of one event.
\<close>

datatype event =
    Connect
  | Disconnect
  | Send WebSocketMessage
  | Open nat
  | Message nat string
  | Close nat nat
  | Err nat
  | Fire nat

definition set_ready :: "nat \<Rightarrow> readyState \<Rightarrow> ws_hook \<Rightarrow> ws_hook" where
  "set_ready i r s = s\<lparr> sockets := (sockets s)[i := (sockets s ! i)\<lparr> readyState := r \<rparr>] \<rparr>"

fun dispatch :: "(string \<Rightarrow> json option) \<Rightarrow> event \<Rightarrow> ws_hook \<Rightarrow> ws_hook" where
  "dispatch parse Connect s = connect (socket s) s"
| "dispatch parse Disconnect s = disconnect (socket s) s"
| "dispatch parse (Send m) s =
     (case sendMessage (socket s) m s of Inl e \<Rightarrow> s | Inr s' \<Rightarrow> s')"
| "dispatch parse (Open i) s =
     (if i < length (sockets s) \<and> readyState (sockets s ! i) = CONNECTING
      then onopen (set_ready i OPEN s) else s)"
| "dispatch parse (Message i d) s =
     (if i < length (sockets s) \<and> readyState (sockets s ! i) = OPEN
      then onmessage parse d s else s)"
| "dispatch parse (Close i code) s =
     (if i < length (sockets s) \<and> readyState (sockets s ! i) \<noteq> CLOSED
      then onclose (creator (sockets s ! i)) code (set_ready i CLOSED s) else s)"
| "dispatch parse (Err i) s =
     (if i < length (sockets s) \<and> readyState (sockets s ! i) \<noteq> CLOSED
      then onerror s else s)"
| "dispatch parse (Fire t) s =
     (if t < length (timers s) \<and> tstate (timers s ! t) = Pending
      then reconnect_callback (callback_socket (timers s ! t))
             (s\<lparr> timers := (timers s)[t := (timers s ! t)\<lparr> tstate := Fired \<rparr>] \<rparr>)
      else s)"

text \<open>
  The hook's effect \<^verbatim>\<open>useEffect(() => { return () => { disconnect(); }; }, [disconnect])\<close>.
  \<^verbatim>\<open>disconnect\<close> is made anew whenever the \<^verbatim>\<open>socket\<close> slot changes, and React then runs
  the cleanup of the effect of the render before, which calls that render's
  \<^verbatim>\<open>disconnect\<close>, with the socket that render held. \<open>p\<close> is the slot of the render in
  which the event was handled. The \<^verbatim>\<open>disconnect\<close> empties the slot; when that changes
  the slot once more, the cleanup of the render in between runs as well, with the socket
  that render held. After it the slot is empty as before, and nothing more runs.
\<close>

definition effect_cleanup :: "nat option \<Rightarrow> ws_hook \<Rightarrow> ws_hook" where
  "effect_cleanup p s =
     (if socket s = p then s
      else
        (let q = socket s; s1 = disconnect p s in
         if socket s1 = q then s1 else disconnect q s1))"

text \<open>One event: its handler, then the renders and effect cleanups it causes.\<close>

definition step :: "(string \<Rightarrow> json option) \<Rightarrow> event \<Rightarrow> ws_hook \<Rightarrow> ws_hook" where
  "step parse ev s = effect_cleanup (socket s) (dispatch parse ev s)"

fun run :: "(string \<Rightarrow> json option) \<Rightarrow> event list \<Rightarrow> ws_hook \<Rightarrow> ws_hook" where
  "run parse [] s = s"
| "run parse (ev # evs) s = run parse evs (step parse ev s)"

text \<open>The identifiers of the timers that are still pending.\<close>

definition pending :: "ws_hook \<Rightarrow> nat list" where
  "pending s = filter (\<lambda>t. tstate (timers s ! t) = Pending) [0..<length (timers s)]"

text \<open>
  A state in which nothing more can happen without a call from the user: no timer is
  pending and every socket is closed.
\<close>

definition quiet :: "ws_hook \<Rightarrow> bool" where
  "quiet s = (pending s = [] \<and> (\<forall>j<length (sockets s). readyState (sockets s ! j) = CLOSED))"

text \<open>
  \<open>codes\<close> are the close codes of consecutive failed connections: the socket \<open>i\<close>
  closes, the timer \<open>t\<close> that this closure set fires and reconnects, the new socket
  closes, and so on.
\<close>

fun failure_events :: "nat \<Rightarrow> nat \<Rightarrow> nat list \<Rightarrow> event list" where
  "failure_events i t [] = []"
| "failure_events i t (code # codes) =
     Close i code # Fire t # failure_events (Suc i) (Suc t) codes"

text \<open>
  What holds of the hook between events, in every state it reaches: the slot is empty,
  the connection flag is false, the attempt count is 0, every socket is closing or
  closed and was opened by a closure that held no socket, and every timer has the first
  delay.
\<close>

definition at_rest :: "ws_hook \<Rightarrow> bool" where
  "at_rest s =
     (socket s = None \<and> \<not> isConnected s \<and> reconnectAttemptsRef s = 0
      \<and> list_all (\<lambda>w. readyState w \<in> {CLOSING, CLOSED} \<and> creator w = None) (sockets s)
      \<and> list_all (\<lambda>t. delay t = 1000 \<and> callback_socket t = None) (timers s)
      \<and> (url_valid s \<or> (sockets s = [] \<and> timers s = [])))"

text \<open>The invariant of the last-received-message slot.\<close>

definition last_message_ok :: "(string \<Rightarrow> json option) \<Rightarrow> ws_hook \<Rightarrow> bool" where
  "last_message_ok parse s =
     (case lastMessage s of None \<Rightarrow> True | Some d \<Rightarrow> parse d \<noteq> None)"

text \<open>\<^verbatim>\<open>JSON.parse\<close> on the few frames the examples below deliver.\<close>

definition sample_parse :: "string \<Rightarrow> json option" where
  \<open>sample_parse d =
     (if d = ''null'' then Some JNull
      else if d = ''{}'' then Some (JObj [])
      else if d = ''{"type":"error","data":{"message":"boom"}}''
        then Some (JObj [(''type'', JStr ''error''),
                         (''data'', JObj [(''message'', JStr ''boom'')])])
      else None)\<close>

section \<open>useCreoleAPI: the request gateway\<close>

type_synonym blob = "8 word list"

text \<open>
  What \<^verbatim>\<open>fetch\<close> resolves to: the status line, the result of \<^verbatim>\<open>response.json()\<close>
  (\<open>None\<close> when the body is not JSON and the promise rejects) and the result of
  \<^verbatim>\<open>response.blob()\<close>. A \<^verbatim>\<open>fetch\<close> that rejects is \<open>Inl NetworkError\<close>.
\<close>

record response =
  status :: nat
  statusText :: string
  body :: "json option"
  raw :: blob

definition ok :: "response \<Rightarrow> bool" where
  "ok r = (200 \<le> status r \<and> status r \<le> 299)"

text \<open>The decimal digits of a number, as a template literal prints it.\<close>

fun show_nat :: "nat \<Rightarrow> string" where
  "show_nat n =
     (if n < 10 then [''0123456789'' ! n]
      else show_nat (n div 10) @ [''0123456789'' ! (n mod 10)])"

declare show_nat.simps [simp del]

text \<open>
  \<^verbatim>\<open>await response.json().catch(() => ({error: ..., status_code: ..., timestamp: ...}))\<close>;
  \<open>now\<close> is \<^verbatim>\<open>new Date().toISOString()\<close>.
\<close>

definition error_data :: "string \<Rightarrow> response \<Rightarrow> json" where
  "error_data now r =
     (case body r of
        Some j \<Rightarrow> j
      | None \<Rightarrow> JObj [(''error'', JStr (''HTTP '' @ show_nat (status r) @ '': '' @ statusText r)),
                      (''status_code'', JNum (of_nat (status r))),
                      (''timestamp'', JStr now)])"

text \<open>
  \<^verbatim>\<open>throw new Error(errorData.error || fallback)\<close>: what is thrown, a TypeError when
  \<^verbatim>\<open>errorData\<close> is \<^verbatim>\<open>null\<close>.
\<close>

definition thrown :: "string \<Rightarrow> string \<Rightarrow> response \<Rightarrow> exn" where
  "thrown now fallback r =
     (case get_prop (Some (error_data now r)) ''error'' of
        Inl e \<Rightarrow> e
      | Inr v \<Rightarrow> Error (or_else v fallback))"

text \<open>\<^verbatim>\<open>return await response.json()\<close>.\<close>

definition json_of :: "response \<Rightarrow> exn + json" where
  "json_of r = (case body r of None \<Rightarrow> Inl SyntaxError | Some j \<Rightarrow> Inr j)"

definition apiCall :: "string \<Rightarrow> exn + response \<Rightarrow> exn + json" where
  "apiCall now fetched =
     try_catch
       (case fetched of
          Inl e \<Rightarrow> Inl e
        | Inr r \<Rightarrow>
            if \<not> ok r then Inl (thrown now (''API Error: '' @ show_nat (status r)) r)
            else json_of r)
       (\<lambda>err. Inl err)"

definition translateText :: "string \<Rightarrow> exn + response \<Rightarrow> exn + json" where
  "translateText now fetched = apiCall now fetched"

definition translateTextBatch :: "string \<Rightarrow> exn + response \<Rightarrow> exn + json" where
  "translateTextBatch now fetched = apiCall now fetched"

definition transcribeAudio :: "string \<Rightarrow> exn + response \<Rightarrow> exn + json" where
  "transcribeAudio now fetched =
     (case fetched of
        Inl e \<Rightarrow> Inl e
      | Inr r \<Rightarrow>
          if \<not> ok r then Inl (thrown now (''Transcription failed: '' @ show_nat (status r)) r)
          else json_of r)"

definition detectLanguage :: "exn + response \<Rightarrow> exn + json" where
  "detectLanguage fetched =
     (case fetched of
        Inl e \<Rightarrow> Inl e
      | Inr r \<Rightarrow>
          if \<not> ok r
          then Inl (Error (JStr (''Language detection failed: '' @ show_nat (status r))))
          else json_of r)"

definition synthesizeText :: "string \<Rightarrow> exn + response \<Rightarrow> exn + blob" where
  "synthesizeText now fetched =
     (case fetched of
        Inl e \<Rightarrow> Inl e
      | Inr r \<Rightarrow>
          if \<not> ok r then Inl (thrown now (''Speech synthesis failed: '' @ show_nat (status r)) r)
          else Inr (raw r))"

definition previewVoice :: "exn + response \<Rightarrow> exn + blob" where
  "previewVoice fetched =
     (case fetched of
        Inl e \<Rightarrow> Inl e
      | Inr r \<Rightarrow>
          if \<not> ok r
          then Inl (Error (JStr (''Voice preview failed: '' @ show_nat (status r))))
          else Inr (raw r))"

subsection \<open>The liveness check\<close>

text \<open>
  The two slots of the hook that \<^verbatim>\<open>checkServiceHealth\<close> writes (it does not touch
  \<^verbatim>\<open>languages\<close> and \<^verbatim>\<open>voices\<close>).
\<close>

record api_hook =
  api_isConnected :: bool
  api_error :: "string option"

text \<open>
  \<^verbatim>\<open>results.every(result => result.status === 'fulfilled' && result.value.status === 'healthy')\<close>
  over the settled promises (\<open>Inl\<close> rejected, \<open>Inr\<close> fulfilled): it stops at the first
  result that fails the test, and reading \<^verbatim>\<open>status\<close> of a \<^verbatim>\<open>null\<close> value throws.
\<close>

fun every_healthy :: "(exn + json) list \<Rightarrow> exn + bool" where
  "every_healthy [] = Inr True"
| "every_healthy (Inl e # rs) = Inr False"
| "every_healthy (Inr v # rs) =
     (case get_prop (Some v) ''status'' of
        Inl e \<Rightarrow> Inl e
      | Inr st \<Rightarrow> if st = Some (JStr ''healthy'') then every_healthy rs else Inr False)"

definition checkServiceHealth ::
  "string \<Rightarrow> exn + response \<Rightarrow> exn + response \<Rightarrow> exn + response \<Rightarrow> api_hook \<Rightarrow> api_hook" where
  "checkServiceHealth now translation stt tts h =
     (case every_healthy [apiCall now translation, apiCall now stt, apiCall now tts] of
        Inr allHealthy \<Rightarrow>
          h\<lparr> api_isConnected := allHealthy,
             api_error := (if allHealthy then None else Some ''Some services are unavailable'') \<rparr>
      | Inl err \<Rightarrow>
          h\<lparr> api_isConnected := False, api_error := Some ''Unable to connect to services'' \<rparr>)"

text \<open>
  The specification's side of the liveness check: a backend responds healthy when its
  request succeeds with a JSON object whose \<^verbatim>\<open>status\<close> is the string \<^verbatim>\<open>healthy\<close>.
\<close>

fun responds_healthy :: "exn + response \<Rightarrow> bool" where
  "responds_healthy (Inl e) = False"
| "responds_healthy (Inr r) =
     (ok r \<and> (case body r of
                 Some (JObj kvs) \<Rightarrow> map_of kvs ''status'' = Some (JStr ''healthy'')
               | _ \<Rightarrow> False))"

text \<open>A successful response whose body is the JSON text \<^verbatim>\<open>null\<close>.\<close>

fun null_body :: "exn + response \<Rightarrow> bool" where
  "null_body (Inl e) = False"
| "null_body (Inr r) = (ok r \<and> body r = Some JNull)"

section \<open>The audio capture pipeline\<close>













section \<open>Helper facts\<close>

lemmas hook_defs = connect_def is_open_def init_hook_def onclose_def onopen_def onerror_def
  reconnect_callback_def clearTimeout_def socket_close_def disconnect_def set_ready_def
  maxReconnectAttempts_def backoff_def pending_def effect_cleanup_def step_def

lemma pending_empty:
  "pending s = [] \<longleftrightarrow> (\<forall>t<length (timers s). tstate (timers s ! t) \<noteq> Pending)"
  by (auto simp: pending_def filter_empty_conv)

lemma backoff_mono: "m \<le> n \<Longrightarrow> backoff m \<le> backoff n"
  unfolding backoff_def
  by (meson min.mono mult_le_mono2 one_le_numeral power_increasing order_refl)

lemma sorted_backoff: "sorted (map backoff [0..<n])"
  by (auto simp: sorted_iff_nth_mono intro: backoff_mono)

lemma backoff_values: "map backoff [0..<5] = [1000, 2000, 4000, 8000, 16000]"
  by (simp add: backoff_def upt_rec)

text \<open>
  The close handler taken alone: at attempt count \<open>k\<close> below the maximum, a closure with
  a code other than 1000 sets one timer, of delay \<open>backoff k\<close>; at the maximum it sets
  none.
\<close>

lemma onclose_sets_timer:
  "code \<noteq> 1000 \<Longrightarrow> reconnectAttemptsRef s < maxReconnectAttempts \<Longrightarrow>
   timers (onclose c code s) = timers s @
     [\<lparr> delay = backoff (reconnectAttemptsRef s), callback_socket = c, tstate = Pending \<rparr>]"
  by (simp add: onclose_def)

lemma onclose_at_maximum:
  "maxReconnectAttempts \<le> reconnectAttemptsRef s \<Longrightarrow>
   onclose c code s = s\<lparr> isConnected := False, socket := None \<rparr>"
  by (simp add: onclose_def)

text \<open>The guard of \<^verbatim>\<open>connect\<close> taken alone.\<close>

lemma connect_guard: "is_open c s \<Longrightarrow> connect c s = s"
  by (simp add: connect_def)

subsection \<open>The state between events\<close>

lemma at_rest_init: "at_rest (init_hook v)"
  by (simp add: at_rest_def init_hook_def)

lemma at_rest_disconnect_None:
  "at_rest s \<Longrightarrow> at_rest (disconnect None s)"
  by (auto simp: at_rest_def disconnect_def clearTimeout_def Let_def list_all_length
      nth_list_update split: option.splits)

lemma at_rest_connect:
  assumes "at_rest (s\<lparr> reconnectAttemptsRef := 0 \<rparr>)"
  shows "at_rest (effect_cleanup None (connect None s))
         \<or> (\<not> url_valid s \<and> sockets s = [] \<and> timers s = [])"
  using assms
  by (auto simp: at_rest_def effect_cleanup_def connect_def is_open_def disconnect_def
      clearTimeout_def socket_close_def Let_def list_all_length nth_list_update nth_append
      split: option.splits)

lemma at_rest_step:
  assumes "at_rest s"
  shows "at_rest (step parse ev s)"
proof -
  have sk: "socket s = None"
    using assms by (simp add: at_rest_def)
  show ?thesis
  proof (cases ev)
    case Connect
    have "at_rest (s\<lparr> reconnectAttemptsRef := 0 \<rparr>)"
      using assms by (simp add: at_rest_def)
    from at_rest_connect [OF this] have
      "at_rest (effect_cleanup None (connect None s))
       \<or> (\<not> url_valid s \<and> sockets s = [] \<and> timers s = [])" .
    then show ?thesis
      using assms Connect sk
      by (auto simp: step_def at_rest_def connect_def is_open_def effect_cleanup_def)
  next
    case Disconnect
    with assms sk show ?thesis
      using at_rest_disconnect_None [OF assms]
      by (simp add: step_def effect_cleanup_def disconnect_def Let_def split: option.splits)
  next
    case (Send m)
    with assms sk show ?thesis
      by (simp add: step_def effect_cleanup_def sendMessage_def is_open_def at_rest_def)
  next
    case (Open i)
    with assms sk show ?thesis
      by (auto simp: step_def effect_cleanup_def at_rest_def list_all_length)
  next
    case (Message i d)
    with assms sk show ?thesis
      by (auto simp: step_def effect_cleanup_def at_rest_def list_all_length)
  next
    case (Close i code)
    with assms sk show ?thesis
      by (auto simp: step_def effect_cleanup_def at_rest_def list_all_length onclose_def
          set_ready_def backoff_def maxReconnectAttempts_def nth_list_update nth_append Let_def)
  next
    case (Err i)
    with assms sk show ?thesis
      by (auto simp: step_def effect_cleanup_def at_rest_def onerror_def)
  next
    case (Fire t)
    show ?thesis
    proof (cases "t < length (timers s) \<and> tstate (timers s ! t) = Pending")
      case False
      with assms sk Fire show ?thesis
        by (auto simp: step_def effect_cleanup_def)
    next
      case True
      define s0 where "s0 = s\<lparr> timers := (timers s)[t := (timers s ! t)\<lparr> tstate := Fired \<rparr>] \<rparr>"
      have cb: "callback_socket (timers s ! t) = None"
        using assms True by (simp add: at_rest_def list_all_length)
      have r0: "at_rest s0"
        using assms True by (auto simp: s0_def at_rest_def list_all_length nth_list_update)
      have ne: "timers s0 \<noteq> []"
        using True by (auto simp: s0_def)
      have "at_rest (s0\<lparr> reconnectAttemptsRef := 1 \<rparr>\<lparr> reconnectAttemptsRef := 0 \<rparr>)"
        using r0 by (simp add: at_rest_def)
      from at_rest_connect [OF this] ne
      have "at_rest (effect_cleanup None (connect None (s0\<lparr> reconnectAttemptsRef := 1 \<rparr>)))"
        by auto
      moreover have "step parse ev s
          = effect_cleanup None (connect None (s0\<lparr> reconnectAttemptsRef := 1 \<rparr>))"
        using True Fire sk cb r0
        by (simp add: step_def reconnect_callback_def s0_def at_rest_def)
      ultimately show ?thesis by simp
    qed
  qed
qed

lemma at_rest_run: "at_rest s \<Longrightarrow> at_rest (run parse evs s)"
  by (induction evs arbitrary: s) (simp_all add: at_rest_step)

text \<open>
  So in every state the hook reaches the slot is empty, the connection flag is false, no
  socket is open, the attempt count is 0 and every timer set so far has the delay of a
  first attempt.
\<close>

lemma reached_at_rest:
  "socket (run parse evs (init_hook v)) = None
   \<and> \<not> isConnected (run parse evs (init_hook v))
   \<and> reconnectAttemptsRef (run parse evs (init_hook v)) = 0
   \<and> \<not> is_open c (run parse evs (init_hook v))
   \<and> list_all (\<lambda>t. delay t = 1000) (timers (run parse evs (init_hook v)))"
  using at_rest_run [OF at_rest_init, of parse evs v]
  by (auto simp: at_rest_def is_open_def list_all_length split: option.splits)

subsection \<open>Quiet states\<close>

lemma quiet_disconnect:
  "quiet s \<Longrightarrow>
   quiet (disconnect c s) \<and> timers (disconnect c s) = timers s
     \<and> sockets (disconnect c s) = sockets s"
  by (auto simp: quiet_def pending_empty disconnect_def clearTimeout_def socket_close_def
      Let_def split: option.splits)

lemma quiet_cleanup:
  assumes "quiet s"
  shows "quiet (effect_cleanup p s) \<and> timers (effect_cleanup p s) = timers s
     \<and> sockets (effect_cleanup p s) = sockets s"
proof -
  note d1 = quiet_disconnect [OF assms, of p]
  from d1 have q1: "quiet (disconnect p s)" by simp
  note d2 = quiet_disconnect [OF q1, of "socket s"]
  from assms d1 d2 show ?thesis
    by (simp add: effect_cleanup_def Let_def)
qed

lemma quiet_dispatch:
  assumes "quiet s" "ev \<noteq> Connect"
  shows "quiet (dispatch parse ev s) \<and> timers (dispatch parse ev s) = timers s
    \<and> sockets (dispatch parse ev s) = sockets s"
proof (cases ev)
  case Connect
  with assms show ?thesis by simp
next
  case Disconnect
  with assms quiet_disconnect [of s "socket s"] show ?thesis by simp
next
  case (Send m)
  with assms show ?thesis
    by (auto simp: quiet_def pending_empty sendMessage_def is_open_def split: option.splits)
next
  case (Open i)
  with assms show ?thesis by (auto simp: quiet_def)
next
  case (Message i d)
  with assms show ?thesis by (auto simp: quiet_def)
next
  case (Close i code)
  with assms show ?thesis by (auto simp: quiet_def)
next
  case (Err i)
  with assms show ?thesis by (auto simp: quiet_def)
next
  case (Fire t)
  with assms show ?thesis by (auto simp: quiet_def pending_empty)
qed

lemma quiet_step:
  assumes "quiet s" "ev \<noteq> Connect"
  shows "quiet (step parse ev s) \<and> timers (step parse ev s) = timers s
    \<and> sockets (step parse ev s) = sockets s"
proof -
  note d = quiet_dispatch [OF assms, of parse]
  from d have q: "quiet (dispatch parse ev s)" by simp
  from quiet_cleanup [OF q, of "socket s"] d show ?thesis
    by (simp add: step_def)
qed

lemma quiet_run:
  "quiet s \<Longrightarrow> Connect \<notin> set evs \<Longrightarrow>
   quiet (run parse evs s) \<and> timers (run parse evs s) = timers s
     \<and> sockets (run parse evs s) = sockets s"
proof (induction evs arbitrary: s)
  case Nil
  then show ?case by simp
next
  case (Cons ev evs)
  from Cons.prems have q: "quiet (step parse ev s)" and t: "timers (step parse ev s) = timers s"
    and k: "sockets (step parse ev s) = sockets s"
    using quiet_step [of s ev parse] by auto
  from Cons.IH [OF q] Cons.prems(2) t k show ?case by simp
qed

lemma close_quiet:
  assumes "pending s = []" "i < length (sockets s)" "readyState (sockets s ! i) \<noteq> CLOSED"
    "\<forall>j<length (sockets s). j \<noteq> i \<longrightarrow> readyState (sockets s ! j) = CLOSED"
  shows "quiet (step parse (Close i 1000) s) \<and> timers (step parse (Close i 1000) s) = timers s
     \<and> length (sockets (step parse (Close i 1000) s)) = length (sockets s)"
proof -
  have d: "quiet (dispatch parse (Close i 1000) s)
     \<and> timers (dispatch parse (Close i 1000) s) = timers s
     \<and> length (sockets (dispatch parse (Close i 1000) s)) = length (sockets s)"
    using assms
    by (auto simp: quiet_def pending_empty onclose_def set_ready_def nth_list_update)
  then have q: "quiet (dispatch parse (Close i 1000) s)" by simp
  from quiet_cleanup [OF q, of "socket s"] d show ?thesis
    by (simp add: step_def)
qed

subsection \<open>Disconnecting\<close>

lemma pending_disconnect:
  "pending (disconnect c s) = filter (\<lambda>t. Some t \<noteq> reconnectTimeoutRef s) (pending s)"
proof (cases "reconnectTimeoutRef s")
  case None
  then show ?thesis
    by (simp add: disconnect_def pending_def socket_close_def Let_def split: option.splits)
next
  case (Some t0)
  have tm: "timers (disconnect c s) = timers (clearTimeout t0 s)"
    using Some by (simp add: disconnect_def socket_close_def clearTimeout_def Let_def split: option.splits)
  show ?thesis
  proof (cases "t0 < length (timers s) \<and> tstate (timers s ! t0) = Pending")
    case True
    then show ?thesis
      unfolding pending_def tm Some
      by (auto simp: clearTimeout_def nth_list_update intro!: filter_cong)
  next
    case False
    then have "filter (\<lambda>t. Some t \<noteq> Some t0) (pending s) = pending s"
      by (auto simp: pending_def intro!: filter_cong)
    with False show ?thesis
      unfolding Some by (auto simp: pending_def tm clearTimeout_def)
  qed
qed

lemma disconnect_again:
  "disconnect c (disconnect c s) = disconnect c s \<and> disconnect None (disconnect c s) = disconnect c s"
  by (cases c; cases "reconnectTimeoutRef s")
     (auto simp: disconnect_def socket_close_def clearTimeout_def Let_def nth_list_update)

lemma disconnect_socket:
  "i < length (sockets s) \<Longrightarrow>
   readyState (sockets (disconnect (Some i) s) ! i) \<in> {CLOSING, CLOSED}"
  by (cases "readyState (sockets s ! i)"; cases "reconnectTimeoutRef s")
     (auto simp: disconnect_def socket_close_def clearTimeout_def Let_def)

subsection \<open>The connection flag and the socket\<close>

lemma open_connected_dispatch:
  assumes "is_open (socket s) s \<longrightarrow> isConnected s"
  shows "is_open (socket (dispatch parse ev s)) (dispatch parse ev s)
    \<longrightarrow> isConnected (dispatch parse ev s)"
proof (cases ev)
  case Connect
  with assms show ?thesis by (auto simp: connect_def is_open_def nth_append split: option.splits)
next
  case Disconnect
  with assms show ?thesis by (simp add: disconnect_def is_open_def Let_def)
next
  case (Send m)
  with assms show ?thesis
    by (auto simp: sendMessage_def socket_send_def try_catch_def is_open_def
        split: option.splits readyState.splits)
next
  case (Open i)
  with assms show ?thesis by (simp add: onopen_def)
next
  case (Message i d)
  with assms show ?thesis
    by (auto simp: onmessage_def is_open_def Let_def split: option.splits sum.splits)
next
  case (Close i code)
  with assms show ?thesis by (simp add: onclose_def is_open_def Let_def)
next
  case (Err i)
  with assms show ?thesis by (auto simp: onerror_def is_open_def split: option.splits)
next
  case (Fire t)
  with assms show ?thesis
    by (auto simp: reconnect_callback_def connect_def is_open_def nth_append split: option.splits)
qed

lemma socket_disconnect: "socket (disconnect c s) = None"
  by (simp add: disconnect_def Let_def)

lemma open_connected_cleanup:
  assumes "is_open (socket s) s \<longrightarrow> isConnected s"
  shows "is_open (socket (effect_cleanup p s)) (effect_cleanup p s)
    \<longrightarrow> isConnected (effect_cleanup p s)"
  using assms
  by (auto simp: effect_cleanup_def Let_def socket_disconnect is_open_def)

lemma open_connected_step:
  assumes "is_open (socket s) s \<longrightarrow> isConnected s"
  shows "is_open (socket (step parse ev s)) (step parse ev s) \<longrightarrow> isConnected (step parse ev s)"
  unfolding step_def
  by (rule open_connected_cleanup [OF open_connected_dispatch [OF assms]])

lemma open_connected_run:
  "(is_open (socket s) s \<longrightarrow> isConnected s) \<Longrightarrow>
   is_open (socket (run parse evs s)) (run parse evs s) \<longrightarrow> isConnected (run parse evs s)"
proof (induction evs arbitrary: s)
  case Nil
  then show ?case by simp
next
  case (Cons ev evs)
  from Cons.IH [OF open_connected_step [OF Cons.prems, of parse ev]]
  show ?case by simp
qed

lemma sendMessage_returns: "\<exists>s'. sendMessage c m s = Inr s'"
  by (auto simp: sendMessage_def try_catch_def split: sum.splits)

subsection \<open>The last-received-message slot\<close>



lemma last_message_ok_cong:
  "lastMessage s' = lastMessage s \<Longrightarrow> last_message_ok parse s' = last_message_ok parse s"
  by (simp add: last_message_ok_def)





lemma url_valid_step: "url_valid (step parse ev s) = url_valid s"
proof -
  have c: "url_valid (effect_cleanup p x) = url_valid x" for p x
    by (simp add: effect_cleanup_def disconnect_def clearTimeout_def socket_close_def Let_def
        split: option.splits)
  have d: "url_valid (dispatch parse ev s) = url_valid s"
    by (cases ev)
       (auto simp: connect_def disconnect_def clearTimeout_def socket_close_def Let_def
          sendMessage_def socket_send_def try_catch_def onopen_def onmessage_def onclose_def
          onerror_def reconnect_callback_def set_ready_def
          split: option.splits sum.splits readyState.splits)
  show ?thesis by (simp add: step_def c d)
qed

lemma url_valid_run: "url_valid (run parse evs s) = url_valid s"
  by (induction evs arbitrary: s) (simp_all add: url_valid_step)

text \<open>
  In every state the hook reaches, \<^verbatim>\<open>connect()\<close> constructs one more socket: the guard
  for an open socket never holds.
\<close>

lemma connect_always_opens:
  "length (sockets (step parse Connect (run parse evs (init_hook True))))
     = Suc (length (sockets (run parse evs (init_hook True))))"
proof -
  have s: "socket (run parse evs (init_hook True)) = None"
    using reached_at_rest [of parse evs True] by simp
  have u: "url_valid (run parse evs (init_hook True))"
    by (simp add: url_valid_run init_hook_def)
  show ?thesis
    using s u
    by (simp add: step_def effect_cleanup_def connect_def is_open_def disconnect_def
        clearTimeout_def socket_close_def Let_def split: option.splits)
qed

section \<open>The reconnect policy\<close>

text \<open>
  C1 at a failing input. The close handler computes the delay from the attempt count
  (\<open>onclose_sets_timer\<close>), and the timer callback raises the count before it
  reconnects. But \<^verbatim>\<open>connect\<close> changes the socket slot, and the effect cleanup that
  follows runs \<^verbatim>\<open>disconnect()\<close>, which sets the count back to 0. After \<^verbatim>\<open>connect()\<close>
  and four abnormal closures in a row, four timers were set and four more sockets
  opened, but every delay is 1000 ms where the policy gives 1000, 2000, 4000, 8000, and
  the count is 0. By \<open>reached_at_rest\<close> every timer the hook ever sets has the delay
  1000.
\<close>

theorem backoff_never_grows:
  "map delay (timers (run sample_parse
      (Connect # failure_events 0 0 [1006, 1011, 1006, 1001]) (init_hook True)))
     = [1000, 1000, 1000, 1000]
   \<and> reconnectAttemptsRef (run sample_parse
      (Connect # failure_events 0 0 [1006, 1011, 1006, 1001]) (init_hook True)) = 0
   \<and> length (sockets (run sample_parse
      (Connect # failure_events 0 0 [1006, 1011, 1006, 1001]) (init_hook True))) = 5
   \<and> map backoff [0..<4] = [1000, 2000, 4000, 8000]"
  by (simp add: hook_defs Let_def nth_append upt_rec)

text \<open>
  C2. The close handler run with the normal-closure code 1000 sets no timer, in any
  state: the timers, the timer ref and the sockets are as before, and the manager is
  disconnected. And when that closure ends the manager's only live connection and no
  backoff timer was pending, no timer is set and no socket is opened by anything that
  happens later, short of a new \<^verbatim>\<open>connect()\<close> call by the user.
\<close>

theorem normal_closure_never_reconnects:
  "timers (onclose c 1000 s) = timers s
   \<and> reconnectTimeoutRef (onclose c 1000 s) = reconnectTimeoutRef s
   \<and> sockets (onclose c 1000 s) = sockets s
   \<and> isConnected (onclose c 1000 s) = False
   \<and> socket (onclose c 1000 s) = None
   \<and> (pending s = [] \<and> i < length (sockets s) \<and> readyState (sockets s ! i) \<noteq> CLOSED
        \<and> (\<forall>j<length (sockets s). j \<noteq> i \<longrightarrow> readyState (sockets s ! j) = CLOSED)
        \<and> Connect \<notin> set evs
      \<longrightarrow> timers (run parse evs (step parse (Close i 1000) s)) = timers s
          \<and> length (sockets (run parse evs (step parse (Close i 1000) s))) = length (sockets s)
          \<and> pending (run parse evs (step parse (Close i 1000) s)) = [])"
proof -
  have handler: "timers (onclose c 1000 s) = timers s
   \<and> reconnectTimeoutRef (onclose c 1000 s) = reconnectTimeoutRef s
   \<and> sockets (onclose c 1000 s) = sockets s
   \<and> isConnected (onclose c 1000 s) = False
   \<and> socket (onclose c 1000 s) = None"
    by (simp add: onclose_def)
  have later: "timers (run parse evs (step parse (Close i 1000) s)) = timers s
          \<and> length (sockets (run parse evs (step parse (Close i 1000) s))) = length (sockets s)
          \<and> pending (run parse evs (step parse (Close i 1000) s)) = []"
    if h: "pending s = []" "i < length (sockets s)" "readyState (sockets s ! i) \<noteq> CLOSED"
      "\<forall>j<length (sockets s). j \<noteq> i \<longrightarrow> readyState (sockets s ! j) = CLOSED"
      "Connect \<notin> set evs"
  proof -
    from close_quiet [OF h(1) h(2) h(3) h(4), of parse]
    have q: "quiet (step parse (Close i 1000) s)"
      and t: "timers (step parse (Close i 1000) s) = timers s"
      and l: "length (sockets (step parse (Close i 1000) s)) = length (sockets s)"
      by auto
    from quiet_run [OF q h(5), of parse] t l show ?thesis
      by (simp add: quiet_def)
  qed
  from handler later show ?thesis by blast
qed

theorem normal_closure_never_reconnects_witness:
  "pending (run sample_parse [Connect] (init_hook True)) = []
   \<and> 0 < length (sockets (run sample_parse [Connect] (init_hook True)))
   \<and> readyState (sockets (run sample_parse [Connect] (init_hook True)) ! 0) \<noteq> CLOSED
   \<and> Connect \<notin> set [Fire 0, Err 0, Disconnect, Close 0 1006]
   \<and> timers (run sample_parse [Fire 0, Err 0, Disconnect, Close 0 1006]
        (step sample_parse (Close 0 1000) (run sample_parse [Connect] (init_hook True))))
       = []"
proof -
  have h1: "pending (run sample_parse [Connect] (init_hook True)) = []"
    and h2: "0 < length (sockets (run sample_parse [Connect] (init_hook True)))"
    and h3: "readyState (sockets (run sample_parse [Connect] (init_hook True)) ! 0) \<noteq> CLOSED"
    and h4: "\<forall>j<length (sockets (run sample_parse [Connect] (init_hook True))).
               j \<noteq> 0 \<longrightarrow>
               readyState (sockets (run sample_parse [Connect] (init_hook True)) ! j) = CLOSED"
    and t0: "timers (run sample_parse [Connect] (init_hook True)) = []"
    by (simp_all add: hook_defs Let_def)
  have h5: "Connect \<notin> set [Fire 0, Err 0, Disconnect, Close 0 1006]"
    by simp
  have "timers (run sample_parse [Fire 0, Err 0, Disconnect, Close 0 1006]
        (step sample_parse (Close 0 1000) (run sample_parse [Connect] (init_hook True))))
       = timers (run sample_parse [Connect] (init_hook True))"
    using normal_closure_never_reconnects
      [of None "run sample_parse [Connect] (init_hook True)" 0
          "[Fire 0, Err 0, Disconnect, Close 0 1006]" sample_parse]
      h1 h2 h3 h4 h5
    by blast
  then have "timers (run sample_parse [Fire 0, Err 0, Disconnect, Close 0 1006]
        (step sample_parse (Close 0 1000) (run sample_parse [Connect] (init_hook True))))
       = []"
    by (simp only: t0)
  with h1 h2 h3 h5 show ?thesis by blast
qed

text \<open>
  C5 at a failing input. After \<^verbatim>\<open>connect()\<close> and six failed connections in a row the
  attempt count is 0, not 5; a seventh attempt is scheduled (timer 5 is pending), again
  after 1000 ms; and the error slot is empty. The close handler would stop at the maximum
  (\<open>onclose_at_maximum\<close>), but the count never gets there (\<open>reached_at_rest\<close>): the
  effect cleanup after every reconnect sets it back to 0. So the reconnection is never
  abandoned, and nothing in the hook records an exhausted budget.
\<close>

theorem retry_budget_never_exhausted:
  "reconnectAttemptsRef (run sample_parse
      [Connect, Close 0 1006, Fire 0, Close 1 1006, Fire 1, Close 2 1006, Fire 2,
       Close 3 1006, Fire 3, Close 4 1006, Fire 4, Close 5 1006] (init_hook True)) = 0
   \<and> pending (run sample_parse
      [Connect, Close 0 1006, Fire 0, Close 1 1006, Fire 1, Close 2 1006, Fire 2,
       Close 3 1006, Fire 3, Close 4 1006, Fire 4, Close 5 1006] (init_hook True)) = [5]
   \<and> map delay (timers (run sample_parse
      [Connect, Close 0 1006, Fire 0, Close 1 1006, Fire 1, Close 2 1006, Fire 2,
       Close 3 1006, Fire 3, Close 4 1006, Fire 4, Close 5 1006] (init_hook True)))
     = [1000, 1000, 1000, 1000, 1000, 1000]
   \<and> error (run sample_parse
      [Connect, Close 0 1006, Fire 0, Close 1 1006, Fire 1, Close 2 1006, Fire 2,
       Close 3 1006, Fire 3, Close 4 1006, Fire 4, Close 5 1006] (init_hook True)) = None"
  by (simp add: hook_defs Let_def nth_append upt_rec)

section \<open>Disconnecting, sending and connecting\<close>

text \<open>
  What \<^verbatim>\<open>disconnect()\<close> does in any state: it leaves the manager disconnected
  (connection flag false, no socket held), with the timer ref empty and the attempt
  count 0; it cancels the timer that the ref recorded, so the timers still pending are
  those that were pending before, the recorded one apart, and none is pending when no
  timer other than the recorded one was; the socket the closure holds is closing or
  closed; and a second call, from the same closure or from one of the next render,
  changes nothing.
\<close>

lemma disconnect_postcondition:
  "isConnected (disconnect c s) = False
   \<and> socket (disconnect c s) = None
   \<and> reconnectTimeoutRef (disconnect c s) = None
   \<and> reconnectAttemptsRef (disconnect c s) = 0
   \<and> pending (disconnect c s) = filter (\<lambda>t. Some t \<noteq> reconnectTimeoutRef s) (pending s)
   \<and> ((\<forall>t\<in>set (pending s). reconnectTimeoutRef s = Some t) \<longrightarrow> pending (disconnect c s) = [])
   \<and> (\<forall>i. c = Some i \<and> i < length (sockets s) \<longrightarrow>
         readyState (sockets (disconnect c s) ! i) \<in> {CLOSING, CLOSED})
   \<and> disconnect c (disconnect c s) = disconnect c s
   \<and> disconnect None (disconnect c s) = disconnect c s"
proof -
  have flags: "isConnected (disconnect c s) = False \<and> socket (disconnect c s) = None
     \<and> reconnectTimeoutRef (disconnect c s) = None \<and> reconnectAttemptsRef (disconnect c s) = 0"
    by (simp add: disconnect_def socket_close_def clearTimeout_def Let_def split: option.splits)
  have none: "pending (disconnect c s) = []" if "\<forall>t\<in>set (pending s). reconnectTimeoutRef s = Some t"
    using that by (simp add: pending_disconnect filter_empty_conv)
  from flags none pending_disconnect [of c s] disconnect_socket [of _ s] disconnect_again [of c s]
  show ?thesis by blast
qed

lemma disconnect_while_reconnecting:
  "pending (run sample_parse [Connect, Close 0 1006] (init_hook True)) = [0]
   \<and> reconnectTimeoutRef (run sample_parse [Connect, Close 0 1006] (init_hook True)) = Some 0
   \<and> pending (disconnect None (run sample_parse [Connect, Close 0 1006] (init_hook True))) = []"
proof -
  have p: "pending (run sample_parse [Connect, Close 0 1006] (init_hook True)) = [0]"
    and r: "reconnectTimeoutRef (run sample_parse [Connect, Close 0 1006] (init_hook True)) = Some 0"
    by (simp_all add: hook_defs Let_def upt_rec)
  have h: "\<forall>t\<in>set (pending (run sample_parse [Connect, Close 0 1006] (init_hook True))).
      reconnectTimeoutRef (run sample_parse [Connect, Close 0 1006] (init_hook True)) = Some t"
    unfolding p r by simp
  from disconnect_postcondition
    [of None "run sample_parse [Connect, Close 0 1006] (init_hook True)"] h
  have "pending (disconnect None (run sample_parse [Connect, Close 0 1006] (init_hook True))) = []"
    by blast
  with p r show ?thesis by blast
qed

text \<open>
  C3 at two failing inputs. The manager records one timer: \<^verbatim>\<open>onclose\<close> overwrites the
  timer ref without cancelling a timer that is still pending, and \<^verbatim>\<open>disconnect()\<close>
  cancels only the timer the ref names. In the first run the user calls \<^verbatim>\<open>connect()\<close>
  twice, two sockets are constructed, both close with the code 1006, and each closure
  sets a timer. In the second the user connects, disconnects and connects again, and the
  two sockets close in the same way. In both, the last \<^verbatim>\<open>disconnect()\<close> leaves the
  first timer pending, and when it fires the manager opens one more socket.
\<close>

theorem disconnect_leaves_timer_pending:
  "pending (run sample_parse [Connect, Connect, Close 0 1006, Close 1 1006, Disconnect]
      (init_hook True)) = [0]
   \<and> length (sockets (run sample_parse
        [Connect, Connect, Close 0 1006, Close 1 1006, Disconnect] (init_hook True))) = 2
   \<and> length (sockets (run sample_parse
        [Connect, Connect, Close 0 1006, Close 1 1006, Disconnect, Fire 0] (init_hook True))) = 3
   \<and> pending (run sample_parse
        [Connect, Disconnect, Connect, Close 0 1006, Close 1 1006, Disconnect]
        (init_hook True)) = [0]
   \<and> length (sockets (run sample_parse
        [Connect, Disconnect, Connect, Close 0 1006, Close 1 1006, Disconnect] (init_hook True))) = 2
   \<and> length (sockets (run sample_parse
        [Connect, Disconnect, Connect, Close 0 1006, Close 1 1006, Disconnect, Fire 0]
        (init_hook True))) = 3"
  by (simp add: hook_defs Let_def nth_append upt_rec)

text \<open>
  C4. When the socket the closure holds is not open (the test \<^verbatim>\<open>sendMessage\<close> makes),
  \<^verbatim>\<open>sendMessage\<close> returns normally and only sets the error slot to "WebSocket not
  connected": nothing is handed to the transport. The same holds in every state the
  manager reaches from its initial state whose connection flag is false, for a call
  from the latest render. And \<^verbatim>\<open>sendMessage\<close> throws in no state at all.
\<close>

theorem send_while_not_connected:
  "(\<not> is_open c s \<longrightarrow>
      sendMessage c m s = Inr (s\<lparr> error := Some (JStr ''WebSocket not connected'') \<rparr>)
      \<and> sent (s\<lparr> error := Some (JStr ''WebSocket not connected'') \<rparr>) = sent s)
   \<and> (\<not> isConnected (run parse evs (init_hook v)) \<longrightarrow>
        sendMessage (socket (run parse evs (init_hook v))) m (run parse evs (init_hook v))
          = Inr ((run parse evs (init_hook v))\<lparr> error := Some (JStr ''WebSocket not connected'') \<rparr>))
   \<and> (\<exists>s'. sendMessage c m s = Inr s')"
proof -
  have a: "sendMessage c m s = Inr (s\<lparr> error := Some (JStr ''WebSocket not connected'') \<rparr>)"
    if "\<not> is_open c s" for c s
    using that by (simp add: sendMessage_def)
  have "is_open (socket (init_hook v)) (init_hook v) \<longrightarrow> isConnected (init_hook v)"
    by (simp add: init_hook_def is_open_def)
  from open_connected_run [OF this, of parse evs]
  have b: "\<not> isConnected (run parse evs (init_hook v)) \<Longrightarrow>
      \<not> is_open (socket (run parse evs (init_hook v))) (run parse evs (init_hook v))"
    by blast
  from a [of c s] a [OF b] sendMessage_returns [of c m s] show ?thesis
    by simp
qed

theorem send_while_not_connected_witness:
  "\<not> is_open (Some 0) (connect None (init_hook True))
   \<and> sendMessage (Some 0) \<lparr> mtype = stop, mdata = None \<rparr> (connect None (init_hook True))
       = Inr ((connect None (init_hook True))\<lparr> error := Some (JStr ''WebSocket not connected'') \<rparr>)
   \<and> \<not> isConnected (run sample_parse [Connect] (init_hook True))"
proof -
  have h: "\<not> is_open (Some 0) (connect None (init_hook True))"
    and h2: "\<not> isConnected (run sample_parse [Connect] (init_hook True))"
    by (simp_all add: hook_defs Let_def)
  from send_while_not_connected
    [of "Some 0" "connect None (init_hook True)" "\<lparr> mtype = stop, mdata = None \<rparr>"
        sample_parse "[Connect]" True] h h2
  show ?thesis by blast
qed


section \<open>The last received message\<close>



section \<open>Failures and liveness in the request gateway\<close>

lemma apiCall_cases:
  "apiCall now fetched =
     (case fetched of
        Inl e \<Rightarrow> Inl e
      | Inr r \<Rightarrow>
          if \<not> ok r then Inl (thrown now (''API Error: '' @ show_nat (status r)) r)
          else json_of r)"
  by (simp add: apiCall_def try_catch_def split: sum.splits)

lemma thrown_unparseable:
  "body r = None \<Longrightarrow>
   thrown now fallback r = Error (JStr (''HTTP '' @ show_nat (status r) @ '': '' @ statusText r))"
  by (simp add: thrown_def error_data_def or_else_def)

lemma thrown_structured:
  "body r = Some (JObj kvs) \<Longrightarrow> map_of kvs ''error'' = Some (JStr msg) \<Longrightarrow> msg \<noteq> [] \<Longrightarrow>
   thrown now fallback r = Error (JStr msg)"
  by (simp add: thrown_def error_data_def or_else_def)

lemma thrown_fallback:
  "body r = Some (JObj kvs) \<Longrightarrow> map_of kvs ''error'' = None \<Longrightarrow>
   thrown now fallback r = Error (JStr fallback)"
  by (simp add: thrown_def error_data_def or_else_def)

lemma every_healthy_apiCall:
  "every_healthy (apiCall now fetched # rs) =
     (if responds_healthy fetched then every_healthy rs
      else if null_body fetched then Inl TypeError
      else Inr False)"
proof (cases fetched)
  case (Inl e)
  then show ?thesis by (simp add: apiCall_cases)
next
  case (Inr r)
  show ?thesis
  proof (cases "ok r")
    case False
    with Inr show ?thesis by (simp add: apiCall_cases)
  next
    case True
    show ?thesis
    proof (cases "body r")
      case None
      with Inr True show ?thesis by (simp add: apiCall_cases json_of_def)
    next
      case (Some v)
      with Inr True show ?thesis
        by (cases v) (simp_all add: apiCall_cases json_of_def)
    qed
  qed
qed

text \<open>
  C8. The liveness check sets the connectivity flag to true exactly when all three
  health requests respond healthy, and then clears the error. Otherwise the flag is
  false and the error is one of two fixed, non-empty messages, neither of which names
  the failing service; for responses of the declared shape (no body that is the JSON
  \<^verbatim>\<open>null\<close>) the resulting state is the same whichever and however many of the three
  failed: the flag false and the message "Some services are unavailable".
\<close>

theorem liveness_check:
  "api_isConnected (checkServiceHealth now t s u h)
     = (responds_healthy t \<and> responds_healthy s \<and> responds_healthy u)
   \<and> (responds_healthy t \<and> responds_healthy s \<and> responds_healthy u \<longrightarrow>
        checkServiceHealth now t s u h = h\<lparr> api_isConnected := True, api_error := None \<rparr>)
   \<and> (\<not> (responds_healthy t \<and> responds_healthy s \<and> responds_healthy u) \<longrightarrow>
        api_isConnected (checkServiceHealth now t s u h) = False
        \<and> (api_error (checkServiceHealth now t s u h) = Some ''Some services are unavailable''
           \<or> api_error (checkServiceHealth now t s u h) = Some ''Unable to connect to services''))
   \<and> (\<not> (responds_healthy t \<and> responds_healthy s \<and> responds_healthy u)
        \<and> \<not> null_body t \<and> \<not> null_body s \<and> \<not> null_body u \<longrightarrow>
        checkServiceHealth now t s u h
          = h\<lparr> api_isConnected := False, api_error := Some ''Some services are unavailable'' \<rparr>)"
  by (simp add: checkServiceHealth_def every_healthy_apiCall)

theorem liveness_check_witness:
  "\<not> (responds_healthy
          (Inr \<lparr> status = 200, statusText = ''OK'',
                 body = Some (JObj [(''status'', JStr ''healthy'')]), raw = [] \<rparr>)
        \<and> responds_healthy
          (Inr \<lparr> status = 200, statusText = ''OK'',
                 body = Some (JObj [(''status'', JStr ''degraded'')]), raw = [] \<rparr>)
        \<and> responds_healthy
          (Inr \<lparr> status = 200, statusText = ''OK'',
                 body = Some (JObj [(''status'', JStr ''healthy'')]), raw = [] \<rparr>))
   \<and> checkServiceHealth ''2024-01-01T00:00:00.000Z''
        (Inr \<lparr> status = 200, statusText = ''OK'',
               body = Some (JObj [(''status'', JStr ''healthy'')]), raw = [] \<rparr>)
        (Inr \<lparr> status = 200, statusText = ''OK'',
               body = Some (JObj [(''status'', JStr ''degraded'')]), raw = [] \<rparr>)
        (Inr \<lparr> status = 200, statusText = ''OK'',
               body = Some (JObj [(''status'', JStr ''healthy'')]), raw = [] \<rparr>)
        \<lparr> api_isConnected = True, api_error = None \<rparr>
      = \<lparr> api_isConnected = False, api_error = Some ''Some services are unavailable'' \<rparr>"
proof -
  have h1: "\<not> (responds_healthy
          (Inr \<lparr> status = 200, statusText = ''OK'',
                 body = Some (JObj [(''status'', JStr ''healthy'')]), raw = [] \<rparr>)
        \<and> responds_healthy
          (Inr \<lparr> status = 200, statusText = ''OK'',
                 body = Some (JObj [(''status'', JStr ''degraded'')]), raw = [] \<rparr>)
        \<and> responds_healthy
          (Inr \<lparr> status = 200, statusText = ''OK'',
                 body = Some (JObj [(''status'', JStr ''healthy'')]), raw = [] \<rparr>))"
    by (simp add: ok_def)
  have h2: "\<not> null_body (Inr \<lparr> status = 200, statusText = ''OK'',
                 body = Some (JObj [(''status'', JStr ''healthy'')]), raw = [] \<rparr>)"
    and h3: "\<not> null_body (Inr \<lparr> status = 200, statusText = ''OK'',
                 body = Some (JObj [(''status'', JStr ''degraded'')]), raw = [] \<rparr>)"
    by simp_all
  have "checkServiceHealth ''2024-01-01T00:00:00.000Z''
        (Inr \<lparr> status = 200, statusText = ''OK'',
               body = Some (JObj [(''status'', JStr ''healthy'')]), raw = [] \<rparr>)
        (Inr \<lparr> status = 200, statusText = ''OK'',
               body = Some (JObj [(''status'', JStr ''degraded'')]), raw = [] \<rparr>)
        (Inr \<lparr> status = 200, statusText = ''OK'',
               body = Some (JObj [(''status'', JStr ''healthy'')]), raw = [] \<rparr>)
        \<lparr> api_isConnected = True, api_error = None \<rparr>
      = \<lparr> api_isConnected = True, api_error = None \<rparr>
          \<lparr> api_isConnected := False, api_error := Some ''Some services are unavailable'' \<rparr>"
    using liveness_check
      [of "''2024-01-01T00:00:00.000Z''"
          "Inr \<lparr> status = 200, statusText = ''OK'',
                 body = Some (JObj [(''status'', JStr ''healthy'')]), raw = [] \<rparr>"
          "Inr \<lparr> status = 200, statusText = ''OK'',
                 body = Some (JObj [(''status'', JStr ''degraded'')]), raw = [] \<rparr>"
          "Inr \<lparr> status = 200, statusText = ''OK'',
                 body = Some (JObj [(''status'', JStr ''healthy'')]), raw = [] \<rparr>"
          "\<lparr> api_isConnected = True, api_error = None \<rparr>"] h1 h2 h3
    by blast
  then show ?thesis using h1 by simp
qed

text \<open>
  C7 at a failing input. The speech-to-text service answers status 500 with a
  structured error body. \<^verbatim>\<open>transcribeAudio\<close>, \<^verbatim>\<open>synthesizeText\<close> and the operations
  routed through \<^verbatim>\<open>apiCall\<close> fail with the message of the body; \<^verbatim>\<open>detectLanguage\<close>
  and \<^verbatim>\<open>previewVoice\<close> never read the body and fail with a message made from the
  status code alone.
\<close>

theorem detect_and_preview_ignore_error_body:
  "transcribeAudio ''2024-01-01T00:00:00.000Z''
      (Inr \<lparr> status = 500, statusText = ''Internal Server Error'',
             body = Some (JObj [(''error'', JStr ''Unsupported audio format''),
                                (''status_code'', JNum 500),
                                (''timestamp'', JStr ''2024-01-01T00:00:00.000Z'')]),
             raw = [] \<rparr>)
     = Inl (Error (JStr ''Unsupported audio format''))
   \<and> translateText ''2024-01-01T00:00:00.000Z''
      (Inr \<lparr> status = 500, statusText = ''Internal Server Error'',
             body = Some (JObj [(''error'', JStr ''Unsupported audio format''),
                                (''status_code'', JNum 500),
                                (''timestamp'', JStr ''2024-01-01T00:00:00.000Z'')]),
             raw = [] \<rparr>)
     = Inl (Error (JStr ''Unsupported audio format''))
   \<and> synthesizeText ''2024-01-01T00:00:00.000Z''
      (Inr \<lparr> status = 500, statusText = ''Internal Server Error'',
             body = Some (JObj [(''error'', JStr ''Unsupported audio format''),
                                (''status_code'', JNum 500),
                                (''timestamp'', JStr ''2024-01-01T00:00:00.000Z'')]),
             raw = [] \<rparr>)
     = Inl (Error (JStr ''Unsupported audio format''))
   \<and> detectLanguage
      (Inr \<lparr> status = 500, statusText = ''Internal Server Error'',
             body = Some (JObj [(''error'', JStr ''Unsupported audio format''),
                                (''status_code'', JNum 500),
                                (''timestamp'', JStr ''2024-01-01T00:00:00.000Z'')]),
             raw = [] \<rparr>)
     = Inl (Error (JStr ''Language detection failed: 500''))
   \<and> previewVoice
      (Inr \<lparr> status = 500, statusText = ''Internal Server Error'',
             body = Some (JObj [(''error'', JStr ''Unsupported audio format''),
                                (''status_code'', JNum 500),
                                (''timestamp'', JStr ''2024-01-01T00:00:00.000Z'')]),
             raw = [] \<rparr>)
     = Inl (Error (JStr ''Voice preview failed: 500''))"
  by (simp add: transcribeAudio_def translateText_def apiCall_cases synthesizeText_def
      detectLanguage_def previewVoice_def ok_def thrown_def error_data_def or_else_def
      show_nat.simps)

section \<open>Chunks kept and chunks streamed\<close>











end
